theory Spec2Isabelle
  imports Complex_Main
begin

section \<open>Values shared by the camera modules\<close>

text \<open>
  Python floats are idealised as real numbers: \<open>+\<close>, \<open>-\<close>, \<open>*\<close>, \<open>**\<close>, \<open>sin\<close>, \<open>cos\<close>,
  \<open>tan\<close> and \<open>sqrt\<close> are the exact operations, so rounding and overflow are outside the
  model. Python's \<open>/\<close> raises \<open>ZeroDivisionError\<close> on a zero divisor; that is kept
  (\<open>py_div\<close>). A 3-tuple of floats and pyglet's \<open>Vec3\<close> are both triples of reals.
\<close>

datatype error =
  ZeroDivisionError | AttributeError | ValueError | IndexError | TypeError | CallerError string

type_synonym Vec3 = "real \<times> real \<times> real"

definition py_div :: "real \<Rightarrow> real \<Rightarrow> error + real" where
  "py_div a b = (if b = 0 then Inl ZeroDivisionError else Inr (a / b))"

definition radians :: "real \<Rightarrow> real" where
  \<comment> \<open>\<open>math.radians\<close>\<close>
  "radians d = d * pi / 180"

text \<open>
  The operations of \<open>pyglet.math.Vec3\<close> that the camera code calls. pyglet is a library
  outside the repository; these are its definitions: \<open>cross\<close>, \<open>dot\<close>, the length
  \<open>__abs__\<close>, and \<open>normalize\<close>, which returns the vector itself when its length is zero.
\<close>

fun cross :: "Vec3 \<Rightarrow> Vec3 \<Rightarrow> Vec3" where
  "cross (x, y, z) (ox, oy, oz) = (y * oz - z * oy, z * ox - x * oz, x * oy - y * ox)"

fun dot :: "Vec3 \<Rightarrow> Vec3 \<Rightarrow> real" where
  "dot (x, y, z) (ox, oy, oz) = x * ox + y * oy + z * oz"

fun vec_abs :: "Vec3 \<Rightarrow> real" where
  "vec_abs (x, y, z) = sqrt (x ^ 2 + y ^ 2 + z ^ 2)"

fun normalize_vec :: "Vec3 \<Rightarrow> Vec3" where
  "normalize_vec (x, y, z) =
     (let d = vec_abs (x, y, z) in if d \<noteq> 0 then (x / d, y / d, z / d) else (x, y, z))"

text \<open>
  A call of the method \<open>cross(self, other)\<close> with a list of positional arguments: it takes
  exactly one, a vector. An argument written \<open>*t\<close> for a 3-tuple \<open>t\<close> is unpacked into
  three floats (\<open>unpack\<close>), and any number of positional arguments other than one raises
  \<open>TypeError\<close>; a single float has no components to read.
\<close>

datatype arg = Float real | Vector Vec3

fun unpack :: "Vec3 \<Rightarrow> arg list" where
  "unpack (x, y, z) = [Float x, Float y, Float z]"

fun cross_call :: "Vec3 \<Rightarrow> arg list \<Rightarrow> error + Vec3" where
  "cross_call self [Vector other] = Inr (cross self other)"
| "cross_call self [Float x] = Inl AttributeError"
| "cross_call self args = Inl TypeError"

text \<open>
  \<open>arcade.camera.data.CameraData\<close> is declared outside the files at hand; its fields and
  their order are those of the constructor call in \<open>PerspectiveProjector.__init__\<close>.
\<close>

record CameraData =
  viewport :: "int \<times> int \<times> int \<times> int"
  position :: Vec3
  up :: Vec3
  forward :: Vec3
  zoom :: real

section \<open>\<open>arcade/camera/controllers/simple_controller_functions.py\<close>\<close>

text \<open>
  The functions that mutate a \<open>CameraData\<close> return the updated record, or the exception
  raised before any assignment. A name that begins with an underscore in the source is
  written without it (\<open>interpolate_3D\<close>).
\<close>

definition quaternion_rotation :: "Vec3 \<Rightarrow> Vec3 \<Rightarrow> real \<Rightarrow> Vec3" where
  "quaternion_rotation axis vector angle =
     (let rotation_rads = - radians angle;
          (p1, p2, p3) = vector;
          c2 = cos (rotation_rads / 2);
          s2 = sin (rotation_rads / 2);
          q0 = c2;
          q1 = s2 * fst axis;
          q2 = s2 * fst (snd axis);
          q3 = s2 * snd (snd axis);
          q0_2 = q0 ^ 2; q1_2 = q1 ^ 2; q2_2 = q2 ^ 2; q3_2 = q3 ^ 2;
          q01 = q0 * q1; q02 = q0 * q2; q03 = q0 * q3;
          q12 = q1 * q2; q13 = q1 * q3; q23 = q2 * q3;
          x = p1 * (q0_2 + q1_2 - q2_2 - q3_2) + 2 * (p2 * (q12 - q03) + p3 * (q02 + q13));
          y = p2 * (q0_2 - q1_2 + q2_2 - q3_2) + 2 * (p1 * (q03 + q12) + p3 * (q23 - q01));
          z = p3 * (q0_2 - q1_2 - q2_2 + q3_2) + 2 * (p1 * (q13 - q02) + p2 * (q01 + q23))
      in (x, y, z))"

definition rotate_around_forward :: "CameraData \<Rightarrow> real \<Rightarrow> CameraData" where
  "rotate_around_forward data angle =
     data\<lparr>up := quaternion_rotation (forward data) (up data) angle\<rparr>"

definition rotate_around_up :: "CameraData \<Rightarrow> real \<Rightarrow> CameraData" where
  "rotate_around_up data angle =
     data\<lparr>forward := quaternion_rotation (up data) (forward data) angle\<rparr>"

definition rotate_around_right :: "CameraData \<Rightarrow> real \<Rightarrow> error + CameraData" where
  \<comment> \<open>\<open>Vec3(*data.forward).cross(*data.up)\<close>: the receiver is built from the unpacked
      \<open>forward\<close>, and the unpacked \<open>up\<close> is the argument list of \<open>cross\<close>. The two
      assignments are in the source's order.\<close>
  "rotate_around_right data angle =
     (case cross_call (forward data) (unpack (up data)) of
        Inl e \<Rightarrow> Inl e
      | Inr crossed_vec \<Rightarrow>
          (let right = crossed_vec;
               data1 = data\<lparr>forward := quaternion_rotation right (forward data) angle\<rparr>
           in Inr (data1\<lparr>up := quaternion_rotation right (up data1) angle\<rparr>)))"

fun interpolate_3D :: "Vec3 \<Rightarrow> Vec3 \<Rightarrow> real \<Rightarrow> Vec3" where
  "interpolate_3D (s_x, s_y, s_z) (e_x, e_y, e_z) t =
     (s_x + t * (e_x - s_x), s_y + t * (e_y - s_y), s_z + t * (e_z - s_z))"

definition simple_follow :: "real \<Rightarrow> Vec3 \<Rightarrow> CameraData \<Rightarrow> CameraData" where
  "simple_follow speed target data =
     data\<lparr>position := interpolate_3D (position data) target speed\<rparr>"

fun simple_follow_2D :: "real \<Rightarrow> real \<times> real \<Rightarrow> CameraData \<Rightarrow> CameraData" where
  \<comment> \<open>\<open>target + (0,)\<close>: the pair extended by a third component \<open>0\<close>\<close>
  "simple_follow_2D speed (t_x, t_y) data = simple_follow speed (t_x, t_y, 0) data"

definition simple_easing ::
  "real \<Rightarrow> Vec3 \<Rightarrow> Vec3 \<Rightarrow> CameraData \<Rightarrow> (real \<Rightarrow> real) \<Rightarrow> CameraData" where
  "simple_easing percent start target data func =
     data\<lparr>position := interpolate_3D start target (func percent)\<rparr>"

fun simple_easing_2D ::
  "real \<Rightarrow> real \<times> real \<Rightarrow> real \<times> real \<Rightarrow> CameraData \<Rightarrow> (real \<Rightarrow> real) \<Rightarrow> CameraData" where
  "simple_easing_2D percent (s_x, s_y) (t_x, t_y) data func =
     simple_easing percent (s_x, s_y, 0) (t_x, t_y, 0) data func"

section \<open>\<open>pyglet.math.Mat4\<close>\<close>

text \<open>
  A \<open>Mat4\<close> is a tuple of 16 floats in column-major order, here a list of 16 reals, and a
  \<open>Vec4\<close> a 4-tuple. The three operations below are the library's: the perspective
  matrix, \<open>@\<close> on a matrix and on a vector, and \<open>~\<close>, which on a zero determinant
  warns and returns the matrix itself.
\<close>

type_synonym Mat4 = "real list"

type_synonym Vec4 = "real \<times> real \<times> real \<times> real"

definition perspective_projection :: "real \<Rightarrow> real \<Rightarrow> real \<Rightarrow> real \<Rightarrow> error + Mat4" where
  "perspective_projection aspect z_near z_far fov =
     (let xy_max = z_near * tan (fov * pi / 360);
          y_min = - xy_max;
          x_min = - xy_max;
          width = xy_max - x_min;
          height = xy_max - y_min;
          depth = z_far - z_near
      in case py_div (- (z_far + z_near)) depth of Inl e \<Rightarrow> Inl e | Inr q \<Rightarrow>
         (case py_div (- 2 * z_far * z_near) depth of Inl e \<Rightarrow> Inl e | Inr qn \<Rightarrow>
         (case py_div (2 * z_near) width of Inl e \<Rightarrow> Inl e | Inr w0 \<Rightarrow>
         (case py_div w0 aspect of Inl e \<Rightarrow> Inl e | Inr w \<Rightarrow>
         (case py_div (2 * z_near) height of Inl e \<Rightarrow> Inl e | Inr h \<Rightarrow>
            Inr [w, 0, 0, 0,
                 0, h, 0, 0,
                 0, 0, q, - 1,
                 0, 0, qn, 0])))))"

definition sum_mul :: "real list \<Rightarrow> real list \<Rightarrow> real" where
  \<comment> \<open>\<open>sum(map(_mul, xs, ys))\<close>\<close>
  "sum_mul xs ys = sum_list (map (\<lambda>(x, y). x * y) (zip xs ys))"

definition stride4 :: "Mat4 \<Rightarrow> nat \<Rightarrow> real list" where
  \<comment> \<open>\<open>m[i::4]\<close>\<close>
  "stride4 m i = [m ! i, m ! (i + 4), m ! (i + 8), m ! (i + 12)]"

definition slice4 :: "Mat4 \<Rightarrow> nat \<Rightarrow> real list" where
  \<comment> \<open>\<open>m[i:i+4]\<close>\<close>
  "slice4 m i = [m ! i, m ! (i + 1), m ! (i + 2), m ! (i + 3)]"

definition matmul :: "Mat4 \<Rightarrow> Mat4 \<Rightarrow> Mat4" where
  \<comment> \<open>\<open>__matmul__\<close> with a \<open>Mat4\<close> on the right\<close>
  "matmul self other =
     (let r0 = stride4 self 0; r1 = stride4 self 1; r2 = stride4 self 2; r3 = stride4 self 3;
          c0 = slice4 other 0; c1 = slice4 other 4; c2 = slice4 other 8; c3 = slice4 other 12
      in [sum_mul c0 r0, sum_mul c0 r1, sum_mul c0 r2, sum_mul c0 r3,
          sum_mul c1 r0, sum_mul c1 r1, sum_mul c1 r2, sum_mul c1 r3,
          sum_mul c2 r0, sum_mul c2 r1, sum_mul c2 r2, sum_mul c2 r3,
          sum_mul c3 r0, sum_mul c3 r1, sum_mul c3 r2, sum_mul c3 r3])"

fun matmul_vec4 :: "Mat4 \<Rightarrow> Vec4 \<Rightarrow> Vec4" where
  \<comment> \<open>\<open>__matmul__\<close> with a \<open>Vec4\<close> on the right\<close>
  "matmul_vec4 self (x, y, z, w) =
     (sum_mul (stride4 self 0) [x, y, z, w],
      sum_mul (stride4 self 1) [x, y, z, w],
      sum_mul (stride4 self 2) [x, y, z, w],
      sum_mul (stride4 self 3) [x, y, z, w])"

definition det :: "Mat4 \<Rightarrow> real" where
  "det m =
     (let a = m ! 10 * m ! 15 - m ! 11 * m ! 14;
          b = m ! 9 * m ! 15 - m ! 11 * m ! 13;
          c = m ! 9 * m ! 14 - m ! 10 * m ! 13;
          d = m ! 8 * m ! 15 - m ! 11 * m ! 12;
          e = m ! 8 * m ! 14 - m ! 10 * m ! 12;
          f = m ! 8 * m ! 13 - m ! 9 * m ! 12
      in m ! 0 * (m ! 5 * a - m ! 6 * b + m ! 7 * c)
         - m ! 1 * (m ! 4 * a - m ! 6 * d + m ! 7 * e)
         + m ! 2 * (m ! 4 * b - m ! 5 * d + m ! 7 * f)
         - m ! 3 * (m ! 4 * c - m ! 5 * e + m ! 6 * f))"

definition invert :: "Mat4 \<Rightarrow> Mat4" where
  \<comment> \<open>\<open>__invert__\<close>; the library's \<open>m\<close> and \<open>o\<close> are \<open>mm\<close> and \<open>ov\<close> here\<close>
  "invert m =
     (let a = m ! 10 * m ! 15 - m ! 11 * m ! 14;
          b = m ! 9 * m ! 15 - m ! 11 * m ! 13;
          c = m ! 9 * m ! 14 - m ! 10 * m ! 13;
          d = m ! 8 * m ! 15 - m ! 11 * m ! 12;
          e = m ! 8 * m ! 14 - m ! 10 * m ! 12;
          f = m ! 8 * m ! 13 - m ! 9 * m ! 12;
          g = m ! 6 * m ! 15 - m ! 7 * m ! 14;
          h = m ! 5 * m ! 15 - m ! 7 * m ! 13;
          i = m ! 5 * m ! 14 - m ! 6 * m ! 13;
          j = m ! 6 * m ! 11 - m ! 7 * m ! 10;
          k = m ! 5 * m ! 11 - m ! 7 * m ! 9;
          l = m ! 5 * m ! 10 - m ! 6 * m ! 9;
          mm = m ! 4 * m ! 15 - m ! 7 * m ! 12;
          n = m ! 4 * m ! 14 - m ! 6 * m ! 12;
          ov = m ! 4 * m ! 11 - m ! 7 * m ! 8;
          p = m ! 4 * m ! 10 - m ! 6 * m ! 8;
          q = m ! 4 * m ! 13 - m ! 5 * m ! 12;
          r = m ! 4 * m ! 9 - m ! 5 * m ! 8
      in if det m = 0 then m
         else
           (let pdet = 1 / det m
            in [pdet * (m ! 5 * a - m ! 6 * b + m ! 7 * c),
                - pdet * (m ! 1 * a - m ! 2 * b + m ! 3 * c),
                pdet * (m ! 1 * g - m ! 2 * h + m ! 3 * i),
                - pdet * (m ! 1 * j - m ! 2 * k + m ! 3 * l),
                - pdet * (m ! 4 * a - m ! 6 * d + m ! 7 * e),
                pdet * (m ! 0 * a - m ! 2 * d + m ! 3 * e),
                - pdet * (m ! 0 * g - m ! 2 * mm + m ! 3 * n),
                pdet * (m ! 0 * j - m ! 2 * ov + m ! 3 * p),
                pdet * (m ! 4 * b - m ! 5 * d + m ! 7 * f),
                - pdet * (m ! 0 * b - m ! 1 * d + m ! 3 * f),
                pdet * (m ! 0 * h - m ! 1 * mm + m ! 3 * q),
                - pdet * (m ! 0 * k - m ! 1 * ov + m ! 3 * r),
                - pdet * (m ! 4 * c - m ! 5 * e + m ! 6 * f),
                pdet * (m ! 0 * c - m ! 1 * e + m ! 2 * f),
                - pdet * (m ! 0 * i - m ! 1 * n + m ! 2 * q),
                pdet * (m ! 0 * l - m ! 1 * p + m ! 2 * r)]))"

section \<open>\<open>arcade/camera/perspective.py\<close>\<close>

text \<open>
  \<open>PerspectiveProjectionData\<close> is declared beside \<open>CameraData\<close>; its fields are in the
  order of the constructor call in \<open>__init__\<close>: aspect, field of view, near, far.

  A projector is an object with a reference to its window. Objects are named by natural
  numbers; the \<open>world\<close> holds the window (arcade's single window, \<open>get_window()\<close>, to which
  every projector is bound) and the projector objects. \<open>current_camera\<close> is \<open>None\<close> until
  some projector is used.
\<close>

record PerspectiveProjectionData =
  aspect :: real
  fov :: real
  near :: real
  far :: real

record PerspectiveProjector =
  view_data :: CameraData
  projection_data :: PerspectiveProjectionData

record Window =
  current_camera :: "nat option"
  ctx_viewport :: "int \<times> int \<times> int \<times> int"
  projection :: Mat4
  view :: Mat4

record world =
  window :: Window
  projectors :: "nat \<Rightarrow> PerspectiveProjector"

definition generate_projection_matrix :: "PerspectiveProjector \<Rightarrow> error + Mat4" where
  \<comment> \<open>\<open>_generate_projection_matrix\<close>\<close>
  "generate_projection_matrix self =
     (case py_div (fov (projection_data self)) (zoom (view_data self)) of
        Inl e \<Rightarrow> Inl e
      | Inr true_fov \<Rightarrow>
          perspective_projection
            (aspect (projection_data self))
            (near (projection_data self))
            (far (projection_data self))
            true_fov)"

definition generate_view_matrix :: "PerspectiveProjector \<Rightarrow> Mat4" where
  \<comment> \<open>\<open>_generate_view_matrix\<close>; \<open>up0\<close> and \<open>up1\<close> are the first and the second value of \<open>up\<close>\<close>
  "generate_view_matrix self =
     (let fo = normalize_vec (forward (view_data self));
          up0 = normalize_vec (up (view_data self));
          ri = cross fo up0;
          up1 = cross ri fo;
          po = position (view_data self);
          (ri_x, ri_y, ri_z) = ri;
          (up_x, up_y, up_z) = up1;
          (fo_x, fo_y, fo_z) = fo
      in [ri_x, up_x, - fo_x, 0,
          ri_y, up_y, - fo_y, 0,
          ri_z, up_z, - fo_z, 0,
          - dot ri po, - dot up1 po, dot fo po, 1])"

definition use :: "nat \<Rightarrow> world \<Rightarrow> error option \<times> world" where
  \<comment> \<open>the result's first component is the exception raised, if any\<close>
  "use self s =
     (let s1 = s\<lparr>window := (window s)\<lparr>current_camera := Some self\<rparr>\<rparr>;
          this = projectors s1 self
      in case generate_projection_matrix this of
           Inl e \<Rightarrow> (Some e, s1)
         | Inr pm \<Rightarrow>
             (let vm = generate_view_matrix this
              in (None,
                  s1\<lparr>window := (window s1)
                       \<lparr>ctx_viewport := viewport (view_data this),
                        projection := pm,
                        view := vm\<rparr>\<rparr>)))"

definition activate ::
  "nat \<Rightarrow> (nat \<Rightarrow> world \<Rightarrow> error option \<times> world) \<Rightarrow> world \<Rightarrow> error option \<times> world" where
  \<comment> \<open>\<open>with self.activate() as cam: body\<close>. The body runs only if \<open>self.use()\<close> returned;
      the \<open>finally\<close> clause runs on every path, and an exception raised in it replaces
      the one in flight.\<close>
  "activate self body s =
     (let previous_projector = current_camera (window s);
          (r1, s1) = use self s;
          (r2, s2) = (case r1 of Some e \<Rightarrow> (Some e, s1) | None \<Rightarrow> body self s1)
      in case previous_projector of
           None \<Rightarrow> (Some AttributeError, s2)
         | Some previous \<Rightarrow>
             (case use previous s2 of
                (Some e, s3) \<Rightarrow> (Some e, s3)
              | (None, s3) \<Rightarrow> (r2, s3)))"

definition map_coordinate :: "PerspectiveProjector \<Rightarrow> real \<times> real \<Rightarrow> error + real \<times> real" where
  "map_coordinate self screen_coordinate =
     (let (v0, v1, v2, v3) = viewport (view_data self)
      in case py_div (2 * (fst screen_coordinate - real_of_int v0)) (real_of_int v2) of
           Inl e \<Rightarrow> Inl e
         | Inr qx \<Rightarrow>
         (case py_div (2 * (snd screen_coordinate - real_of_int v1)) (real_of_int v3) of
           Inl e \<Rightarrow> Inl e
         | Inr qy \<Rightarrow>
         (let screen_x = qx - 1;
              screen_y = qy - 1;
              view_m = generate_view_matrix self
          in case generate_projection_matrix self of
               Inl e \<Rightarrow> Inl e
             | Inr projection_m \<Rightarrow>
                 (let screen_position = (screen_x, screen_y, - 1, 1);
                      full = invert (matmul projection_m view_m);
                      (m0, m1, m2, m3) = matmul_vec4 full screen_position
                  in Inr (m0, m1)))))"

section \<open>\<open>arcade/camera/stack.py\<close>\<close>

text \<open>
  \<open>CameraState\<close> is the named tuple of the source; the selectors carry the prefix \<open>cs\<close>.
  The rendering context is an object of a class declared elsewhere, so its type is a
  parameter. The body of \<open>clear\<close> breaks off in the source after \<open>self._context.\<close>, so
  \<open>clear\<close> has no definition here.
\<close>

datatype CameraState = CameraState
  (cs_view: Mat4)
  (cs_projection: Mat4)
  (cs_viewport: "int \<times> int \<times> int \<times> int")
  (cs_scissor: "(int \<times> int \<times> int \<times> int) option")
  (cs_projector: nat)

record 'c CameraStack =
  ctx :: 'c
  stack :: "CameraState list"

definition init :: "'c \<Rightarrow> 'c CameraStack" where
  \<comment> \<open>\<open>CameraStack.__init__\<close>\<close>
  "init c = \<lparr>ctx = c, stack = []\<rparr>"

definition push :: "CameraState \<Rightarrow> 'c CameraStack \<Rightarrow> 'c CameraStack" where
  "push camera_state self = self\<lparr>stack := stack self @ [camera_state]\<rparr>"

definition pop :: "'c CameraStack \<Rightarrow> error + CameraState \<times> 'c CameraStack" where
  \<comment> \<open>\<open>list.pop()\<close> raises \<open>IndexError\<close> on an empty list\<close>
  "pop self =
     (if length (stack self) = 1 then Inl ValueError
      else if stack self = [] then Inl IndexError
      else Inr (last (stack self), self\<lparr>stack := butlast (stack self)\<rparr>))"

definition peek :: "'c CameraStack \<Rightarrow> error + CameraState" where
  "peek self = (if stack self = [] then Inl IndexError else Inr (last (stack self)))"

section \<open>Auxiliary notions for the proofs\<close>

text \<open>
  The quaternion sandwich of \<open>quaternion_rotation\<close> as a function of the quaternion, a
  scalar multiple, the squared length, and equality of vectors up to a tolerance in
  every component.
\<close>

definition qrot :: "real \<Rightarrow> real \<Rightarrow> real \<Rightarrow> real \<Rightarrow> Vec3 \<Rightarrow> Vec3" where
  "qrot q0 q1 q2 q3 p =
     (case p of (p1, p2, p3) \<Rightarrow>
       (p1 * (q0 ^ 2 + q1 ^ 2 - q2 ^ 2 - q3 ^ 2) + 2 * (p2 * (q1 * q2 - q0 * q3) + p3 * (q0 * q2 + q1 * q3)),
        p2 * (q0 ^ 2 - q1 ^ 2 + q2 ^ 2 - q3 ^ 2) + 2 * (p1 * (q0 * q3 + q1 * q2) + p3 * (q2 * q3 - q0 * q1)),
        p3 * (q0 ^ 2 - q1 ^ 2 - q2 ^ 2 + q3 ^ 2) + 2 * (p1 * (q1 * q3 - q0 * q2) + p2 * (q0 * q1 + q2 * q3))))"

fun scale :: "real \<Rightarrow> Vec3 \<Rightarrow> Vec3" where
  "scale k (x, y, z) = (k * x, k * y, k * z)"

fun vec_sq :: "Vec3 \<Rightarrow> real" where
  "vec_sq (x, y, z) = x ^ 2 + y ^ 2 + z ^ 2"

fun approx_eq :: "real \<Rightarrow> Vec3 \<Rightarrow> Vec3 \<Rightarrow> bool" where
  "approx_eq tol (x, y, z) (ox, oy, oz) \<longleftrightarrow>
     \<bar>x - ox\<bar> \<le> tol \<and> \<bar>y - oy\<bar> \<le> tol \<and> \<bar>z - oz\<bar> \<le> tol"

definition right_of :: "Mat4 \<Rightarrow> Vec3" where
  \<comment> \<open>the entries of a view matrix that hold \<open>ri\<close>\<close>
  "right_of m = (m ! 0, m ! 4, m ! 8)"

definition up_of :: "Mat4 \<Rightarrow> Vec3" where
  \<comment> \<open>the entries that hold the second \<open>up\<close>\<close>
  "up_of m = (m ! 1, m ! 5, m ! 9)"

definition back_of :: "Mat4 \<Rightarrow> Vec3" where
  \<comment> \<open>the entries that hold \<open>-fo\<close>\<close>
  "back_of m = (m ! 2, m ! 6, m ! 10)"

section \<open>Concrete inputs\<close>

text \<open>
  The projector that \<open>__init__\<close> builds by default for a window of 800 by 600 pixels, two
  variants of it (an \<open>up\<close> that is not perpendicular to \<open>forward\<close>, and an \<open>up\<close> parallel to
  \<open>forward\<close>), a world whose projectors are all the default one, and two stack entries.
\<close>

definition window_800_600 :: PerspectiveProjector where
  "window_800_600 =
     \<lparr>view_data = \<lparr>viewport = (0, 0, 800, 600), position = (400, 300, 0), up = (0, 1, 0),
        forward = (0, 0, - 1), zoom = 1\<rparr>,
      projection_data = \<lparr>aspect = 4 / 3, fov = 90, near = 1 / 10, far = 1000\<rparr>\<rparr>"

definition tilted_up :: PerspectiveProjector where
  "tilted_up =
     \<lparr>view_data = \<lparr>viewport = (0, 0, 800, 600), position = (0, 0, 0), up = (0, 3, 4),
        forward = (0, 0, - 1), zoom = 1\<rparr>,
      projection_data = \<lparr>aspect = 4 / 3, fov = 90, near = 1 / 10, far = 1000\<rparr>\<rparr>"

definition parallel_up :: PerspectiveProjector where
  "parallel_up =
     \<lparr>view_data = \<lparr>viewport = (0, 0, 800, 600), position = (400, 300, 0), up = (0, 0, - 1),
        forward = (0, 0, - 1), zoom = 1\<rparr>,
      projection_data = \<lparr>aspect = 4 / 3, fov = 90, near = 1 / 10, far = 1000\<rparr>\<rparr>"

definition world_800_600 :: "nat option \<Rightarrow> world" where
  "world_800_600 cam =
     \<lparr>window = \<lparr>current_camera = cam, ctx_viewport = (0, 0, 800, 600),
        projection = [1, 0, 0, 0, 0, 1, 0, 0, 0, 0, 1, 0, 0, 0, 0, 1],
        view = [1, 0, 0, 0, 0, 1, 0, 0, 0, 0, 1, 0, 0, 0, 0, 1]\<rparr>,
      projectors = (\<lambda>_. window_800_600)\<rparr>"

definition set_viewport :: "nat \<Rightarrow> world \<Rightarrow> error option \<times> world" where
  \<comment> \<open>a caller's block that sets the context's viewport and returns\<close>
  "set_viewport cam s = (None, s\<lparr>window := (window s)\<lparr>ctx_viewport := (1, 2, 3, 4)\<rparr>\<rparr>)"

definition raise_error :: "nat \<Rightarrow> world \<Rightarrow> error option \<times> world" where
  \<comment> \<open>a caller's block that raises\<close>
  "raise_error cam s = (Some (CallerError ''boom''), s)"

definition state_0 :: CameraState where
  "state_0 = CameraState [1, 0, 0, 0, 0, 1, 0, 0, 0, 0, 1, 0, 0, 0, 0, 1]
     [1, 0, 0, 0, 0, 1, 0, 0, 0, 0, 1, 0, 0, 0, 0, 1] (0, 0, 800, 600) None 0"

definition state_1 :: CameraState where
  "state_1 = CameraState [1, 0, 0, 0, 0, 1, 0, 0, 0, 0, 1, 0, 0, 0, 0, 1]
     [1, 0, 0, 0, 0, 1, 0, 0, 0, 0, 1, 0, 0, 0, 0, 1] (0, 0, 400, 300) None 1"

section \<open>Linear interpolation\<close>

text \<open>
  C10. For every view, 2D target \<open>(tx, ty)\<close> and speed \<open>t\<close>, \<open>simple_follow_2D\<close> sets the
  position \<open>(x, y, z)\<close> to \<open>((1-t)*x + t*tx, (1-t)*y + t*ty, (1-t)*z)\<close> and changes nothing
  else; the third coordinate moves towards 0, so it changes whenever \<open>z\<close> and \<open>t\<close> are
  both nonzero.
\<close>

theorem simple_follow_2D_position:
  assumes "position data = (x, y, z)"
  shows "simple_follow_2D t (tx, ty) data =
           data\<lparr>position := ((1 - t) * x + t * tx, (1 - t) * y + t * ty, (1 - t) * z)\<rparr> \<and>
         (z \<noteq> 0 \<and> t \<noteq> 0 \<longrightarrow>
            snd (snd (position (simple_follow_2D t (tx, ty) data))) \<noteq> snd (snd (position data)))"
  using assms by (simp add: simple_follow_def algebra_simps)

theorem simple_follow_2D_position_witness:
  "position (view_data tilted_up\<lparr>position := (0, 0, 4)\<rparr>) = (0, 0, 4) \<and>
   position (simple_follow_2D (1 / 2) (10, 0) (view_data tilted_up\<lparr>position := (0, 0, 4)\<rparr>)) =
     (5, 0, 2) \<and>
   (4::real) \<noteq> 0 \<and> (1 / 2 :: real) \<noteq> 0 \<and> (2::real) \<noteq> 4"
proof -
  have h: "position (view_data tilted_up\<lparr>position := (0, 0, 4)\<rparr>) = (0, 0, 4)"
    by simp
  from simple_follow_2D_position [OF h, of "1 / 2" 10 0] show ?thesis
    by simp
qed

section \<open>Quaternion rotation\<close>

lemma quaternion_rotation_qrot:
  "quaternion_rotation (a0, a1, a2) p angle =
     qrot (cos (radians angle / 2)) (- sin (radians angle / 2) * a0)
          (- sin (radians angle / 2) * a1) (- sin (radians angle / 2) * a2) p"
  by (cases p) (simp add: quaternion_rotation_def qrot_def Let_def)

text \<open>
  Two polynomial identities of the sandwich, for any quaternion: applying the conjugate
  after the quaternion, and the squared length. Each carries the squared norm of the
  quaternion as a factor.
\<close>

lemma qrot_conj:
  "qrot q0 (- q1) (- q2) (- q3) (qrot q0 q1 q2 q3 (p1, p2, p3)) =
     scale ((q0 ^ 2 + q1 ^ 2 + q2 ^ 2 + q3 ^ 2) ^ 2) (p1, p2, p3)"
  apply (simp add: qrot_def)
  apply (intro conjI)
  by algebra+

lemma qrot_sq:
  "vec_sq (qrot q0 q1 q2 q3 (p1, p2, p3)) =
     (q0 ^ 2 + q1 ^ 2 + q2 ^ 2 + q3 ^ 2) ^ 2 * vec_sq (p1, p2, p3)"
  apply (simp add: qrot_def)
  by algebra

lemma unit_quaternion:
  assumes "vec_abs (a0, a1, a2) = 1"
  shows "(cos h) ^ 2 + (- sin h * a0) ^ 2 + (- sin h * a1) ^ 2 + (- sin h * a2) ^ 2 = 1"
proof -
  have "a0 ^ 2 + a1 ^ 2 + a2 ^ 2 = 1"
    using assms by (simp add: real_sqrt_eq_1_iff)
  moreover have "(cos h) ^ 2 + (- sin h * a0) ^ 2 + (- sin h * a1) ^ 2 + (- sin h * a2) ^ 2 =
      (cos h) ^ 2 + (sin h) ^ 2 * (a0 ^ 2 + a1 ^ 2 + a2 ^ 2)"
    by (simp add: power_mult_distrib distrib_left)
  ultimately show ?thesis by simp
qed

lemma qr_norm_inverse:
  assumes "vec_abs axis = 1"
  shows "vec_abs (quaternion_rotation axis v \<theta>) = vec_abs v"
    and "quaternion_rotation axis (quaternion_rotation axis v \<theta>) (- \<theta>) = v"
proof -
  obtain a0 a1 a2 where ax: "axis = (a0, a1, a2)" by (cases axis) auto
  obtain p1 p2 p3 where v: "v = (p1, p2, p3)" by (cases v) auto
  define h where "h = radians \<theta> / 2"
  define w where "w = qrot (cos h) (- sin h * a0) (- sin h * a1) (- sin h * a2) (p1, p2, p3)"
  have u: "(cos h) ^ 2 + (- sin h * a0) ^ 2 + (- sin h * a1) ^ 2 + (- sin h * a2) ^ 2 = 1"
    using assms unfolding ax by (rule unit_quaternion)
  have r1: "quaternion_rotation axis v \<theta> = w"
    unfolding ax v h_def w_def by (rule quaternion_rotation_qrot)
  have "vec_sq w = vec_sq v"
    unfolding w_def v qrot_sq u by simp
  then have "vec_abs w = vec_abs v"
    by (cases w) (simp add: v)
  then show "vec_abs (quaternion_rotation axis v \<theta>) = vec_abs v"
    by (simp add: r1)
  have "quaternion_rotation axis w (- \<theta>) =
          qrot (cos h) (- (- sin h * a0)) (- (- sin h * a1)) (- (- sin h * a2)) w"
    unfolding ax h_def by (simp add: quaternion_rotation_qrot radians_def)
  also have "\<dots> = scale (1 ^ 2) (p1, p2, p3)"
    unfolding w_def qrot_conj u ..
  finally have "quaternion_rotation axis w (- \<theta>) = v"
    by (simp add: v)
  then show "quaternion_rotation axis (quaternion_rotation axis v \<theta>) (- \<theta>) = v"
    by (simp add: r1)
qed

text \<open>
  C4. The claim: rotating \<open>(0, 0, -1)\<close> about the axis \<open>(0, 1, 0)\<close> by 90 degrees gives
  approximately \<open>(-1, 0, 0)\<close>. With the angle negated as the function does, the result is
  \<open>(1, 0, 0)\<close>.
\<close>

theorem quaternion_rotation_y_90:
  "quaternion_rotation (0, 1, 0) (0, 0, - 1) 90 = (1, 0, 0)"
  by (simp add: quaternion_rotation_def radians_def Let_def cos_45 sin_45 power_divide)

theorem quaternion_rotation_y_90_counterexample:
  "\<not> approx_eq 1 (quaternion_rotation (0, 1, 0) (0, 0, - 1) 90) (- 1, 0, 0)"
  by (simp add: quaternion_rotation_def radians_def Let_def cos_45 sin_45 power_divide)

text \<open>
  C8. For every axis of length 1, every vector \<open>v\<close> and every angle \<open>\<theta>\<close>, the rotation
  keeps the length of \<open>v\<close>, and rotating the result about the same axis by \<open>-\<theta>\<close> gives
  \<open>v\<close> back.
\<close>

theorem quaternion_rotation_norm_inverse:
  assumes "vec_abs axis = 1"
  shows "vec_abs (quaternion_rotation axis v \<theta>) = vec_abs v \<and>
         quaternion_rotation axis (quaternion_rotation axis v \<theta>) (- \<theta>) = v"
  using qr_norm_inverse [OF assms] by simp

theorem quaternion_rotation_norm_inverse_witness:
  "vec_abs (0, 1, 0) = 1 \<and>
   vec_abs (quaternion_rotation (0, 1, 0) (3, 4, 12) 30) = 13 \<and>
   quaternion_rotation (0, 1, 0) (quaternion_rotation (0, 1, 0) (3, 4, 12) 30) (- 30) = (3, 4, 12)"
proof -
  have h: "vec_abs (0, 1, 0) = 1" by simp
  have "sqrt (3 ^ 2 + 4 ^ 2 + 12 ^ 2) = sqrt (13 ^ 2)" by simp
  then have "vec_abs (3, 4, 12) = 13" by (simp del: power2_eq_square)
  with h quaternion_rotation_norm_inverse [OF h, of "(3, 4, 12)" 30] show ?thesis by simp
qed

text \<open>
  C9. The claim: \<open>rotate_around_right\<close> by \<open>\<theta>\<close> and then by \<open>-\<theta>\<close> returns \<open>forward\<close> and
  \<open>up\<close> to their values. The function rotates nothing: its first statement passes the
  three unpacked components of \<open>up\<close> to \<open>cross\<close>, which takes one vector, so every call
  raises \<open>TypeError\<close> before either assignment.
\<close>

theorem rotate_around_right_raises:
  "rotate_around_right data angle = Inl TypeError"
  by (cases "up data") (simp add: rotate_around_right_def)

section \<open>Scoped activation of a projector\<close>

lemma use_current_camera: "current_camera (window (snd (use p s))) = Some p"
  by (simp add: use_def Let_def split: sum.split)

lemma activate_Some:
  assumes "current_camera (window s) = Some previous"
  shows "snd (activate self body s) =
           snd (use previous
             (case fst (use self s) of
                Some e \<Rightarrow> snd (use self s)
              | None \<Rightarrow> snd (body self (snd (use self s)))))"
  using assms
  by (simp add: activate_def Let_def split: prod.split option.split)

lemma activate_None:
  assumes "current_camera (window s) = None"
  shows "fst (activate self body s) = Some AttributeError"
    and "fst (use self s) = None \<Longrightarrow>
           snd (activate self body s) = snd (body self (snd (use self s)))"
  using assms
  by (auto simp add: activate_def Let_def split: prod.split option.split)

lemma projection_800_600:
  "generate_projection_matrix window_800_600 =
     Inr [3 / 4, 0, 0, 0, 0, 1, 0, 0, 0, 0, - (10001 / 9999), - 1, 0, 0, - (2000 / 9999), 0]"
  by (simp add: generate_projection_matrix_def perspective_projection_def py_div_def
        window_800_600_def Let_def tan_45)

lemma use_projectors: "projectors (snd (use p s)) = projectors s"
  by (simp add: use_def Let_def split: sum.split)

lemma use_fst:
  "fst (use p s) =
     (case generate_projection_matrix (projectors s p) of Inl e \<Rightarrow> Some e | Inr pm \<Rightarrow> None)"
  by (simp add: use_def Let_def split: sum.split)

lemma activate_result:
  assumes "current_camera (window s) = Some previous"
    and "fst (use self s) = None"
    and "fst (use previous (snd (body self (snd (use self s))))) = None"
  shows "fst (activate self body s) = fst (body self (snd (use self s)))"
  using assms
  by (auto simp add: activate_def Let_def split: prod.split option.split)

lemma use_800_600: "fst (use p (world_800_600 cam)) = None"
  by (simp add: use_fst world_800_600_def projection_800_600)

text \<open>
  C1. For every projector and every block run inside its \<open>activate()\<close>, when a projector
  was current on the window before entry, that projector is current again after the
  block is left, whether the block returned or raised (and also when \<open>use()\<close> of the
  entered projector raised before the block could run): the state left behind is the one
  that \<open>use()\<close> of the previous projector produces.
\<close>

theorem activate_restores_previous:
  assumes "current_camera (window s) = Some previous"
  shows "current_camera (window (snd (activate self body s))) = Some previous"
  by (simp only: activate_Some [OF assms] use_current_camera)

theorem activate_restores_previous_witness:
  "current_camera (window (world_800_600 (Some 0))) = Some 0 \<and>
   fst (activate 1 raise_error (world_800_600 (Some 0))) = Some (CallerError ''boom'') \<and>
   current_camera (window (snd (activate 1 raise_error (world_800_600 (Some 0))))) = Some 0"
proof -
  have h: "current_camera (window (world_800_600 (Some 0))) = Some 0"
    by (simp add: world_800_600_def)
  have "projectors (snd (use 1 (world_800_600 (Some 0)))) 0 = window_800_600"
    by (simp add: use_projectors) (simp add: world_800_600_def)
  then have "fst (use 0 (snd (raise_error 1 (snd (use 1 (world_800_600 (Some 0))))))) = None"
    by (simp add: raise_error_def use_fst projection_800_600)
  then have "fst (activate 1 raise_error (world_800_600 (Some 0))) =
      fst (raise_error 1 (snd (use 1 (world_800_600 (Some 0)))))"
    by (rule activate_result [OF h use_800_600])
  then have "fst (activate 1 raise_error (world_800_600 (Some 0))) = Some (CallerError ''boom'')"
    by (simp add: raise_error_def)
  with h activate_restores_previous [OF h, of 1 raise_error] show ?thesis by simp
qed

text \<open>
  C5. The claim: entering the scoped activation while no projector is current fails with
  an explicit error. Evaluated on a window of 800 by 600 whose current camera is
  \<open>None\<close>: \<open>use()\<close> returns, so the block is entered and runs (it sets the viewport); the
  \<open>AttributeError\<close> comes only from the \<open>finally\<close> clause after the block, and the
  entered projector stays the current camera.
\<close>

theorem activate_without_previous:
  "fst (use 1 (world_800_600 None)) = None \<and>
   fst (activate 1 set_viewport (world_800_600 None)) = Some AttributeError \<and>
   current_camera (window (snd (activate 1 set_viewport (world_800_600 None)))) = Some 1 \<and>
   ctx_viewport (window (snd (activate 1 set_viewport (world_800_600 None)))) = (1, 2, 3, 4)"
proof -
  have n: "current_camera (window (world_800_600 None)) = None"
    by (simp add: world_800_600_def)
  show ?thesis
    by (simp add: activate_None [OF n] use_800_600 set_viewport_def use_current_camera)
qed

section \<open>The camera stack\<close>

text \<open>
  C2. The claim: a fresh stack has size 1, \<open>pop\<close> fails exactly at size 1, and \<open>pop\<close> after
  a push returns the pushed state. The constructor makes the list empty, so the first
  state pushed is the one that \<open>pop\<close> refuses to remove: \<open>pop\<close> raises \<open>ValueError\<close>
  exactly at size 1, it returns exactly at size 2 or more, a push onto a non-empty stack
  followed by \<open>pop\<close> returns the pushed state and the stack as it was, and what a
  successful \<open>pop\<close> leaves has size 1 or more.
\<close>

theorem pop_cases:
  "length (stack (init c)) = 0 \<and>
   (pop self = Inl ValueError \<longleftrightarrow> length (stack self) = 1) \<and>
   ((\<exists>r. pop self = Inr r) \<longleftrightarrow> 2 \<le> length (stack self)) \<and>
   (stack self \<noteq> [] \<longrightarrow> pop (push x self) = Inr (x, self)) \<and>
   (\<forall>y self'. pop self = Inr (y, self') \<longrightarrow> 1 \<le> length (stack self'))"
proof (intro conjI)
  show "length (stack (init c)) = 0" by (simp add: init_def)
  show "pop self = Inl ValueError \<longleftrightarrow> length (stack self) = 1"
    by (simp add: pop_def)
  show "(\<exists>r. pop self = Inr r) \<longleftrightarrow> 2 \<le> length (stack self)"
    by (cases "stack self") (auto simp add: pop_def Suc_le_eq)
  show "stack self \<noteq> [] \<longrightarrow> pop (push x self) = Inr (x, self)"
    by (simp add: pop_def push_def)
  show "\<forall>y self'. pop self = Inr (y, self') \<longrightarrow> 1 \<le> length (stack self')"
    by (cases "stack self") (auto simp add: pop_def Suc_le_eq split: if_splits)
qed

theorem pop_cases_witness:
  "stack (push state_0 (init ())) \<noteq> [] \<and>
   pop (push state_1 (push state_0 (init ()))) = Inr (state_1, push state_0 (init ())) \<and>
   1 \<le> length (stack (push state_0 (init ())))"
  using pop_cases [of "()" "push state_1 (push state_0 (init ()))" state_1]
    pop_cases [of "()" "push state_0 (init ())" state_1]
  by (simp add: push_def init_def)

theorem pop_counterexample:
  "length (stack (init ())) = 0 \<and>
   pop (init ()) = Inl IndexError \<and>
   pop (push state_0 (init ())) = Inl ValueError"
  by (simp add: init_def push_def pop_def)

section \<open>The view matrix\<close>

lemma sqrt_25: "sqrt 25 = 5"
proof -
  have "sqrt (5 ^ 2) = 5" by (simp del: power2_eq_square)
  then show ?thesis by simp
qed

lemma view_tilted_up:
  "generate_view_matrix tilted_up = [3 / 5, 0, 0, 0, 0, 3 / 5, 0, 0, 0, 0, 1, 0, 0, 0, 0, 1]"
  by (simp add: generate_view_matrix_def tilted_up_def Let_def sqrt_25)

lemma cross_dot_left: "dot (cross a b) a = 0"
  by (cases a, cases b) (simp add: algebra_simps)

lemma cross_dot_right: "dot (cross a b) b = 0"
  by (cases a, cases b) (simp add: algebra_simps)

lemma dot_cross_left: "dot a (cross a b) = 0"
  by (cases a, cases b) (simp add: algebra_simps)

lemma dot_cross_right: "dot b (cross a b) = 0"
  by (cases a, cases b) (simp add: algebra_simps)

text \<open>
  The three vectors in the matrix are orthogonal to each other for every view, since
  \<open>ri\<close> and the second \<open>up\<close> are cross products.
\<close>

lemma view_matrix_orthogonal:
  "dot (right_of (generate_view_matrix self)) (up_of (generate_view_matrix self)) = 0 \<and>
   dot (right_of (generate_view_matrix self)) (back_of (generate_view_matrix self)) = 0 \<and>
   dot (up_of (generate_view_matrix self)) (back_of (generate_view_matrix self)) = 0"
proof -
  define fo where "fo = normalize_vec (forward (view_data self))"
  define ri where "ri = cross fo (normalize_vec (up (view_data self)))"
  define up1 where "up1 = cross ri fo"
  have r: "right_of (generate_view_matrix self) = ri"
    and u: "up_of (generate_view_matrix self) = up1"
    and b: "back_of (generate_view_matrix self) = scale (- 1) fo"
    by (simp_all add: generate_view_matrix_def Let_def right_of_def up_of_def back_of_def
          fo_def ri_def up1_def split: prod.split)
  have s: "dot a (scale k c) = k * dot a c" for a k c
    by (cases a, cases c) (simp add: algebra_simps)
  show ?thesis
    unfolding r u b s
    by (simp add: up1_def ri_def cross_dot_right cross_dot_left dot_cross_left dot_cross_right)
qed

text \<open>
  C3. The claim: the right and up vectors of the view matrix have length 1 whatever the
  angle between the given \<open>up\<close> and \<open>forward\<close>. Evaluated for \<open>forward = (0, 0, -1)\<close> and
  \<open>up = (0, 3, 4)\<close>, which are not parallel: both vectors have length 3/5, because the
  cross product of the two normalised vectors is used as it is.
\<close>

theorem view_matrix_not_unit:
  "cross (forward (view_data tilted_up)) (up (view_data tilted_up)) \<noteq> (0, 0, 0) \<and>
   vec_abs (right_of (generate_view_matrix tilted_up)) = 3 / 5 \<and>
   vec_abs (up_of (generate_view_matrix tilted_up)) = 3 / 5"
proof -
  have "sqrt ((3 / 5) ^ 2) = 3 / 5" by (simp del: power2_eq_square)
  then show ?thesis
    by (simp add: view_tilted_up right_of_def up_of_def) (simp add: tilted_up_def)
qed

section \<open>Mapping a screen coordinate\<close>

lemma map_coordinate_det_zero:
  assumes "viewport (view_data self) = (v0, v1, v2, v3)" and "v2 \<noteq> 0" and "v3 \<noteq> 0"
    and "generate_projection_matrix self = Inr pm"
    and "det (matmul pm (generate_view_matrix self)) = 0"
  shows "map_coordinate self (sx, sy) =
           Inr (case matmul_vec4 (matmul pm (generate_view_matrix self))
                       (2 * (sx - real_of_int v0) / real_of_int v2 - 1,
                        2 * (sy - real_of_int v1) / real_of_int v3 - 1, - 1, 1)
                of (m0, m1, m2, m3) \<Rightarrow> (m0, m1))"
proof -
  have "invert (matmul pm (generate_view_matrix self)) = matmul pm (generate_view_matrix self)"
    using assms(5) by (simp add: invert_def Let_def)
  with assms(1-4) show ?thesis
    by (simp add: map_coordinate_def py_div_def Let_def split: prod.split)
qed

lemma view_parallel_up:
  "generate_view_matrix parallel_up = [0, 0, 0, 0, 0, 0, 0, 0, 0, 0, 1, 0, 0, 0, 0, 1]"
  by (simp add: generate_view_matrix_def parallel_up_def Let_def)

lemma projection_parallel_up:
  "generate_projection_matrix parallel_up =
     Inr [3 / 4, 0, 0, 0, 0, 1, 0, 0, 0, 0, - (10001 / 9999), - 1, 0, 0, - (2000 / 9999), 0]"
  by (simp add: generate_projection_matrix_def perspective_projection_def py_div_def
        parallel_up_def Let_def tan_45)

lemma full_parallel_up:
  "matmul [3 / 4, 0, 0, 0, 0, 1, 0, 0, 0, 0, - (10001 / 9999), - 1, 0, 0, - (2000 / 9999), 0]
     (generate_view_matrix parallel_up) =
   [0, 0, 0, 0, 0, 0, 0, 0, 0, 0, - (10001 / 9999), - 1, 0, 0, - (2000 / 9999), 0]"
  by (simp add: view_parallel_up matmul_def stride4_def slice4_def sum_mul_def Let_def)

lemma det_parallel_up:
  "det [0, 0, 0, 0, 0, 0, 0, 0, 0, 0, - (10001 / 9999), - 1, 0, 0, - (2000 / 9999), 0] = 0"
  by (simp add: det_def Let_def)

lemma viewport_parallel_up: "viewport (view_data parallel_up) = (0, 0, 800, 600)"
  by (simp add: parallel_up_def)

lemma det_full_parallel_up:
  "det (matmul [3 / 4, 0, 0, 0, 0, 1, 0, 0, 0, 0, - (10001 / 9999), - 1, 0, 0,
      - (2000 / 9999), 0] (generate_view_matrix parallel_up)) = 0"
  by (simp add: full_parallel_up det_parallel_up)

text \<open>
  C7. The claim: when projection times view is singular, \<open>map_coordinate\<close> reports an
  error. It makes no such check. With a viewport of nonzero width and height and a
  projection matrix that could be computed, a product of determinant zero gives no error:
  the inverse is the product itself, and the result is the first two components of that
  product applied to the point \<open>(screen_x, screen_y, -1, 1)\<close>.
\<close>

theorem map_coordinate_singular:
  assumes "viewport (view_data self) = (v0, v1, v2, v3)" and "v2 \<noteq> 0" and "v3 \<noteq> 0"
    and "generate_projection_matrix self = Inr pm"
    and "det (matmul pm (generate_view_matrix self)) = 0"
  shows "map_coordinate self (sx, sy) =
           Inr (case matmul_vec4 (matmul pm (generate_view_matrix self))
                       (2 * (sx - real_of_int v0) / real_of_int v2 - 1,
                        2 * (sy - real_of_int v1) / real_of_int v3 - 1, - 1, 1)
                of (m0, m1, m2, m3) \<Rightarrow> (m0, m1))"
  using assms by (rule map_coordinate_det_zero)

theorem map_coordinate_singular_witness:
  "viewport (view_data parallel_up) = (0, 0, 800, 600) \<and> (800::int) \<noteq> 0 \<and> (600::int) \<noteq> 0 \<and>
   generate_projection_matrix parallel_up =
     Inr [3 / 4, 0, 0, 0, 0, 1, 0, 0, 0, 0, - (10001 / 9999), - 1, 0, 0, - (2000 / 9999), 0] \<and>
   det (matmul [3 / 4, 0, 0, 0, 0, 1, 0, 0, 0, 0, - (10001 / 9999), - 1, 0, 0, - (2000 / 9999), 0]
          (generate_view_matrix parallel_up)) = 0 \<and>
   map_coordinate parallel_up (800, 600) = Inr (0, 0)"
proof -
  have h2: "(800::int) \<noteq> 0" and h3: "(600::int) \<noteq> 0" by simp_all
  from map_coordinate_singular [OF viewport_parallel_up h2 h3 projection_parallel_up
      det_full_parallel_up, of 800 600]
    viewport_parallel_up projection_parallel_up det_full_parallel_up
  show ?thesis
    by (simp add: full_parallel_up stride4_def sum_mul_def)
qed

theorem map_coordinate_singular_counterexample:
  "cross (forward (view_data parallel_up)) (up (view_data parallel_up)) = (0, 0, 0) \<and>
   generate_projection_matrix parallel_up =
     Inr [3 / 4, 0, 0, 0, 0, 1, 0, 0, 0, 0, - (10001 / 9999), - 1, 0, 0, - (2000 / 9999), 0] \<and>
   det (matmul [3 / 4, 0, 0, 0, 0, 1, 0, 0, 0, 0, - (10001 / 9999), - 1, 0, 0, - (2000 / 9999), 0]
          (generate_view_matrix parallel_up)) = 0 \<and>
   map_coordinate parallel_up (200, 150) = Inr (0, 0)"
proof -
  have "map_coordinate parallel_up (200, 150) = Inr (0, 0)"
    using map_coordinate_det_zero [OF viewport_parallel_up _ _ projection_parallel_up
        det_full_parallel_up, of 200 150]
    by (simp add: full_parallel_up stride4_def sum_mul_def)
  then show ?thesis
    by (simp add: projection_parallel_up det_full_parallel_up) (simp add: parallel_up_def)
qed

end
